theory Spec2Isabelle
  imports Main "HOL-Library.Sublist"
begin

section \<open>The tpclash supervisor (main.go)\<close>

text \<open>
  The whole program is the \<open>Run\<close> function of \<open>rootCmd\<close>: it reads the first
  configuration from the watcher's channel, validates and stores it, starts the Clash
  process, enables the transparent proxy, starts a goroutine that reloads Clash on every
  later configuration, waits for the signal context to be done and shuts down.

  The embedding records what \<open>Run\<close> does as a list of events for the main goroutine, a
  second list for the reload goroutine, the files on disk and the way the run ends.
  Everything \<open>Run\<close> calls that is not in main.go is a parameter: the pure helpers
  (\<open>CheckConfig\<close>, \<open>AutoFix\<close>, \<open>filepath.Join\<close>, the URL check of
  \<open>http.NewRequest\<close>) and the constants are fields of \<open>env\<close>; the results of the
  calls that act on the outside world (channel receives, file writes, process start and
  kill, proxy mode, the HTTP round trip, signals) are fields of \<open>world\<close>.
\<close>

subsection \<open>Data\<close>

text \<open>The flags bound in \<open>init()\<close>; \<open>CheckInterval\<close> is a duration in nanoseconds.\<close>

record TPClashConf =
  Debug :: bool
  ClashHome :: string
  ClashConfig :: string
  ClashUI :: string
  CheckInterval :: nat
  HttpHeader :: "string list"
  DisableExtract :: bool
  PrintVersion :: bool

text \<open>The two fields of the value returned by \<open>CheckConfig\<close> that \<open>Run\<close> reads.\<close>

record ClashConf =
  ExternalController :: string
  Secret :: string

datatype signal = SIGINT | SIGTERM | SIGHUP

datatype cap = CAP_NET_BIND_SERVICE | CAP_NET_ADMIN | CAP_NET_RAW

datatype level = DebugLevel | InfoLevel | ErrorLevel | FatalLevel

text \<open>Arguments of a format string: a string (or an error, by its text), an integer, \<open>cmd.Args\<close>.\<close>

datatype arg = AStr string | AInt int | AList "string list"

record request =
  Method :: string
  URL :: string
  Header :: "(string \<times> string) list"
  Body :: string

record response =
  StatusCode :: int
  RespBody :: string

text \<open>
  What a goroutine does, in program order. \<open>Log\<close> is \<open>logrus.Info\<close>, \<open>logrus.Error\<close>
  or \<open>logrus.Fatal\<close> on one value, \<open>Logf\<close> the formatting variant with its format string
  and arguments. \<open>WriteFile\<close> is a call of \<open>os.WriteFile\<close> with the name, the data and
  the permission bits (0644 is 420). \<open>Go\<close> is the \<open>go\<close> statement of line 100. \<open>Do\<close>
  is the call of \<open>cli.Do\<close> and \<open>DoReturned\<close> its return.
\<close>

datatype event =
    Printf string "arg list"
  | SetLevel level
  | Log level string
  | Logf level string "arg list"
  | NotifyContext "signal list"
  | CallSysctl
  | CallExtractFiles
  | CallWatchConfig
  | is_Recv: Recv string
  | is_WriteFile: WriteFile string string nat
  | is_Start: Start "string list" "cap list"
  | Cancel
  | CallNewProxyMode
  | is_EnableProxy: CallEnableProxy
  | is_Go: Go
  | is_Do: Do request
  | is_DoReturned: DoReturned "string + response"
  | is_DisableProxy: CallDisableProxy
  | is_Kill: Kill nat

text \<open>
  How the run ends: \<open>Run\<close> returns, \<open>logrus.Fatal\<close> exits the process with a status,
  or the main goroutine stays blocked on the channel receive or on \<open>ctx.Done()\<close>.
\<close>

datatype outcome = Returned | Exited nat | BlockedOnRecv | BlockedOnDone

type_synonym files = "string \<rightharpoonup> string"

text \<open>
  The result of \<open>os.WriteFile\<close>: success, or an error together with what the failed
  call left in the file (\<open>None\<close>: the file is as it was, the open failed; \<open>Some s\<close>:
  the file was truncated and holds \<open>s\<close>).
\<close>

datatype write_result = WriteOk | WriteErr string "string option"

text \<open>
  One value read by the reload goroutine from the channel, with the results of the
  file write and of the HTTP round trip made for it (each is used only if the goroutine
  gets that far).
\<close>

record update =
  sent :: string
  update_write :: write_result
  update_do :: "string + response"

text \<open>
  The outside world of one run. \<open>first_value\<close> is what the receive of line 57 yields
  (\<open>None\<close>: nothing is ever sent; a receive from a closed channel yields the empty
  string); \<open>later_values\<close> are the values the reload goroutine reads and handles before
  the process ends, in channel order (an iteration cut short by the end of the process
  is not modelled); \<open>Start_result\<close> is the error of \<open>cmd.Start\<close> or the pid of the new
  process; \<open>signal_received\<close> is the signal that ends the wait, if any.
\<close>

record world =
  first_value :: "string option"
  first_write :: write_result
  Start_result :: "string + nat"
  NewProxyMode_err :: "string option"
  EnableProxy_err :: "string option"
  later_values :: "update list"
  signal_received :: "signal option"
  DisableProxy_err :: "string option"
  Kill_err :: "string option"

text \<open>
  The parts of the repository and of the Go library that main.go uses and does not
  define: the build variables, the two file names, \<open>filepath.Join\<close> on two elements,
  \<open>CheckConfig\<close> (an error text or the parsed configuration), \<open>AutoFix\<close>, and the
  error of \<open>http.NewRequest\<close> for a method and a URL.
\<close>

record env =
  logo :: string
  version :: string
  build :: string
  clash :: string
  commit :: string
  InternalConfigName :: string
  InternalClashBinName :: string
  filepath_Join :: "string \<Rightarrow> string \<Rightarrow> string"
  CheckConfig :: "string \<Rightarrow> string + ClashConf"
  AutoFix :: "string \<Rightarrow> string"
  NewRequest_err :: "string \<Rightarrow> string \<Rightarrow> string option"

record result =
  main_events :: "event list"
  reload_events :: "event list"
  files_after :: files
  outcome :: outcome

subsection \<open>Log messages\<close>

definition banner_format :: string where
  "banner_format = ''%s'' @ [CHR 0x0A] @ ''Version: %s'' @ [CHR 0x0A] @ ''Build: %s'' @ [CHR 0x0A]
     @ ''Clash Core: %s'' @ [CHR 0x0A] @ ''Commit: %s'' @ [CHR 0x0A]"

text \<open>The three messages of lines 147, 150 and 162, as UTF-8 bytes.\<close>

definition standby_msg :: string where
  "standby_msg = ''[main] '' @ [CHR 0xF0, CHR 0x9F, CHR 0x8D, CHR 0x84] @ '' ''
     @ [CHR 0xE6, CHR 0x8F, CHR 0x90, CHR 0xE8, CHR 0x8E, CHR 0xAB, CHR 0xE9, CHR 0x98, CHR 0x9F,
        CHR 0xE9, CHR 0x95, CHR 0xBF, CHR 0xE6, CHR 0xAD, CHR 0xA3, CHR 0xE5, CHR 0x9C, CHR 0xA8,
        CHR 0xE5, CHR 0xBE, CHR 0x85, CHR 0xE5, CHR 0x91, CHR 0xBD] @ ''...''"

definition stopping_msg :: string where
  "stopping_msg = ''[main] '' @ [CHR 0xF0, CHR 0x9F, CHR 0x9B, CHR 0x91] @ '' TPClash ''
     @ [CHR 0xE6, CHR 0xAD, CHR 0xA3, CHR 0xE5, CHR 0x9C, CHR 0xA8, CHR 0xE5, CHR 0x81, CHR 0x9C,
        CHR 0xE6, CHR 0xAD, CHR 0xA2] @ ''...''"

definition stopped_msg :: string where
  "stopped_msg = ''[main] '' @ [CHR 0xF0, CHR 0x9F, CHR 0x9B, CHR 0x91] @ '' TPClash ''
     @ [CHR 0xE5, CHR 0xB7, CHR 0xB2, CHR 0xE5, CHR 0x85, CHR 0xB3, CHR 0xE9, CHR 0x97, CHR 0xAD] @ ''!''"

definition reload_success_msg :: string where
  "reload_success_msg = ''[main] clash config reload success...''"

definition reload_status_format :: string where
  "reload_status_format = ''[main] failed to reload config: status %d: %s''"

subsection \<open>Files\<close>

text \<open>\<open>os.WriteFile name data\<close> on the files, for each result of the call.\<close>

definition WriteFile_effect :: "string \<Rightarrow> string \<Rightarrow> write_result \<Rightarrow> files \<Rightarrow> files" where
  "WriteFile_effect name data r fs =
     (case r of
        WriteOk \<Rightarrow> fs(name \<mapsto> data)
      | WriteErr err None \<Rightarrow> fs
      | WriteErr err (Some left) \<Rightarrow> fs(name \<mapsto> left))"

subsection \<open>The reload goroutine (lines 100 to 145)\<close>

text \<open>Lines 116 to 119: the controller address, with its default.\<close>

definition apiAddr_of :: "ClashConf \<Rightarrow> string" where
  "apiAddr_of cc =
     (if ExternalController cc = [] then ''127.0.0.1:9090'' else ExternalController cc)"

text \<open>Lines 122 and 127: the request, once \<open>http.NewRequest\<close> has accepted it.\<close>

definition reload_request :: "ClashConf \<Rightarrow> string \<Rightarrow> request" where
  "reload_request cc clashConfPath =
     \<lparr> Method = ''PUT'',
       URL = ''http://'' @ apiAddr_of cc @ ''/configs'',
       Header = [(''Authorization'', ''Bearer '' @ Secret cc)],
       Body = ''{'' @ [CHR 0x22] @ ''path'' @ [CHR 0x22] @ '': '' @ [CHR 0x22]
              @ clashConfPath @ [CHR 0x22] @ ''}'' \<rparr>"

text \<open>Lines 130 to 143: the round trip and what is logged after it.\<close>

definition send_reload :: "request \<Rightarrow> string + response \<Rightarrow> event list" where
  "send_reload req r =
     (case r of
        Inl err \<Rightarrow>
          [Do req, DoReturned r, Logf ErrorLevel ''[main] failed to reload config: %v'' [AStr err]]
      | Inr resp \<Rightarrow>
          [Do req, DoReturned r]
          @ (if \<not> (StatusCode resp \<ge> 200 \<and> StatusCode resp \<le> 299)
             then [Logf ErrorLevel reload_status_format [AInt (StatusCode resp), AStr (RespBody resp)]]
             else [])
          @ [Log InfoLevel reload_success_msg])"

text \<open>
  One iteration of the loop body for the value \<open>sent u\<close>: the events of the iteration
  and the files after it. The deferred \<open>resp.Body.Close()\<close> runs only when the goroutine's
  function returns, so it is no part of an iteration.
\<close>

definition handle_update :: "env \<Rightarrow> string \<Rightarrow> update \<Rightarrow> files \<Rightarrow> event list \<times> files" where
  "handle_update E clashConfPath u fs =
     (let ccStr = AutoFix E (sent u) in
      case CheckConfig E ccStr of
        Inl err \<Rightarrow>
          ([Recv (sent u),
            Log InfoLevel ''[main] clash config changed, reloading...'',
            Logf ErrorLevel (''[main] an error was detected in the clash config, skipping automatic reload:''
                              @ [CHR 0x0A] @ '' %v'') [AStr err]],
           fs)
      | Inr cc \<Rightarrow>
          (case update_write u of
             WriteErr err left \<Rightarrow>
               ([Recv (sent u),
                 Log InfoLevel ''[main] clash config changed, reloading...'',
                 WriteFile clashConfPath ccStr 420,
                 Logf ErrorLevel ''[main] failed to copy clash config: %v'' [AStr err]],
                WriteFile_effect clashConfPath ccStr (update_write u) fs)
           | WriteOk \<Rightarrow>
               ([Recv (sent u),
                 Log InfoLevel ''[main] clash config changed, reloading...'',
                 WriteFile clashConfPath ccStr 420]
                @ (case NewRequest_err E ''PUT'' (''http://'' @ apiAddr_of cc @ ''/configs'') of
                     Some err \<Rightarrow> [Logf ErrorLevel ''[main] failed to create reload req: %v'' [AStr err]]
                   | None \<Rightarrow> send_reload (reload_request cc clashConfPath) (update_do u)),
                WriteFile_effect clashConfPath ccStr WriteOk fs)))"

text \<open>The loop \<open>for ccStr := range updateCh\<close> over the values it reads.\<close>

fun reload_loop :: "env \<Rightarrow> string \<Rightarrow> update list \<Rightarrow> files \<Rightarrow> event list \<times> files" where
  "reload_loop E clashConfPath [] fs = ([], fs)"
| "reload_loop E clashConfPath (u # us) fs =
     (let (evs, fs') = handle_update E clashConfPath u fs;
          (evs', fs'') = reload_loop E clashConfPath us fs'
      in (evs @ evs', fs''))"

subsection \<open>Shutdown (lines 149 to 162)\<close>

text \<open>
  The statements after \<open><-ctx.Done()\<close>, for the process handle \<open>cmd.Process\<close>
  (\<open>None\<close> is nil), followed by the deferred \<open>cancel()\<close> of line 45.
\<close>

definition shutdown :: "world \<Rightarrow> nat option \<Rightarrow> event list" where
  "shutdown W process =
     [Log InfoLevel stopping_msg, CallDisableProxy]
     @ (case DisableProxy_err W of Some err \<Rightarrow> [Log ErrorLevel err] | None \<Rightarrow> [])
     @ (case process of
          Some pid \<Rightarrow> Kill pid # (case Kill_err W of Some err \<Rightarrow> [Log ErrorLevel err] | None \<Rightarrow> [])
        | None \<Rightarrow> [])
     @ [Log InfoLevel stopped_msg, Cancel]"

text \<open>
  Line 149: the context is done when \<open>cancel()\<close> was called during startup or when one
  of the three signals arrives; otherwise the main goroutine waits for ever.
\<close>

definition await_done :: "world \<Rightarrow> bool \<Rightarrow> nat option \<Rightarrow> event list \<times> outcome" where
  "await_done W cancelled process =
     (if cancelled \<or> signal_received W \<noteq> None
      then (shutdown W process, Returned)
      else ([], BlockedOnDone))"

subsection \<open>Startup (lines 32 to 147)\<close>

definition clashConfPath_of :: "env \<Rightarrow> TPClashConf \<Rightarrow> string" where
  "clashConfPath_of E conf = filepath_Join E (ClashHome conf) (InternalConfigName E)"

definition cmd_Args :: "env \<Rightarrow> TPClashConf \<Rightarrow> string list" where
  "cmd_Args E conf =
     [filepath_Join E (ClashHome conf) (InternalClashBinName E),
      ''-f'', clashConfPath_of E conf,
      ''-d'', ClashHome conf,
      ''-ext-ui'', filepath_Join E (ClashHome conf) (ClashUI conf)]"

text \<open>
  Lines 72 to 88: the events, \<open>cmd.Process\<close> afterwards and whether \<open>cancel()\<close> was
  called. \<open>cmd.Start\<close> sets \<open>cmd.Process\<close> exactly when it returns no error.
\<close>

definition spawn :: "env \<Rightarrow> TPClashConf \<Rightarrow> world \<Rightarrow> event list \<times> nat option \<times> bool" where
  "spawn E conf W =
     (let args = cmd_Args E conf;
          process = (case Start_result W of Inl err \<Rightarrow> None | Inr pid \<Rightarrow> Some pid)
      in ([Logf InfoLevel ''[main] running cmds: %v'' [AList args],
           Start args [CAP_NET_BIND_SERVICE, CAP_NET_ADMIN, CAP_NET_RAW]]
          @ (case Start_result W of Inl err \<Rightarrow> [Log ErrorLevel err, Cancel] | Inr pid \<Rightarrow> [])
          @ (if process = None
             then [Logf ErrorLevel ''failed to start clash process: %v'' [AList args], Cancel]
             else []),
          process,
          (case Start_result W of Inl err \<Rightarrow> True | Inr pid \<Rightarrow> False) \<or> process = None))"

text \<open>Lines 90 to 162, for the process handle and cancellation state left by \<open>spawn\<close>.\<close>

definition enable_and_serve ::
    "env \<Rightarrow> TPClashConf \<Rightarrow> world \<Rightarrow> nat option \<Rightarrow> bool \<Rightarrow> files \<Rightarrow> result" where
  "enable_and_serve E conf W process cancelled fs =
     (case NewProxyMode_err W of
        Some err \<Rightarrow>
          \<lparr> main_events = [CallNewProxyMode,
                            Logf FatalLevel ''[main] failed to create proxy mode: %v'' [AStr err]],
            reload_events = [], files_after = fs, outcome = Exited 1 \<rparr>
      | None \<Rightarrow>
          (case EnableProxy_err W of
             Some err \<Rightarrow>
               \<lparr> main_events = [CallNewProxyMode, CallEnableProxy,
                                 Logf FatalLevel ''[main] failed to enable proxy: %v'' [AStr err]],
                 reload_events = [], files_after = fs, outcome = Exited 1 \<rparr>
           | None \<Rightarrow>
               (let (revs, fs') = reload_loop E (clashConfPath_of E conf) (later_values W) fs;
                    (sevs, out) = await_done W cancelled process
                in \<lparr> main_events = [CallNewProxyMode, CallEnableProxy, Go,
                                      Log InfoLevel standby_msg] @ sevs,
                      reload_events = revs, files_after = fs', outcome = out \<rparr>)))"

definition after_events :: "event list \<Rightarrow> result \<Rightarrow> result" where
  "after_events evs r = r\<lparr> main_events := evs @ main_events r \<rparr>"

text \<open>Lines 59 to 162, for the first value \<open>clashConfStr\<close> read from the channel.\<close>

definition start_with :: "env \<Rightarrow> TPClashConf \<Rightarrow> world \<Rightarrow> string \<Rightarrow> files \<Rightarrow> result" where
  "start_with E conf W clashConfStr fs =
     (case CheckConfig E clashConfStr of
        Inl err \<Rightarrow>
          \<lparr> main_events = [Log FatalLevel err],
            reload_events = [], files_after = fs, outcome = Exited 1 \<rparr>
      | Inr cc \<Rightarrow>
          (case first_write W of
             WriteErr err left \<Rightarrow>
               \<lparr> main_events = [WriteFile (clashConfPath_of E conf) clashConfStr 420,
                                 Logf FatalLevel ''[main] failed to copy clash config: %v'' [AStr err]],
                 reload_events = [],
                 files_after = WriteFile_effect (clashConfPath_of E conf) clashConfStr (first_write W) fs,
                 outcome = Exited 1 \<rparr>
           | WriteOk \<Rightarrow>
               (let (evs, process, cancelled) = spawn E conf W
                in after_events (WriteFile (clashConfPath_of E conf) clashConfStr 420 # evs)
                     (enable_and_serve E conf W process cancelled
                        (WriteFile_effect (clashConfPath_of E conf) clashConfStr WriteOk fs)))))"

text \<open>The whole of \<open>Run\<close>, from the files \<open>fs\<close> on disk when it starts.\<close>

definition Run :: "env \<Rightarrow> TPClashConf \<Rightarrow> world \<Rightarrow> files \<Rightarrow> result" where
  "Run E conf W fs =
     (if PrintVersion conf
      then \<lparr> main_events = [Printf banner_format
                               [AStr (logo E), AStr (version E), AStr (build E),
                                AStr (clash E), AStr (commit E)]],
             reload_events = [], files_after = fs, outcome = Returned \<rparr>
      else
        (let evs = (if Debug conf then [SetLevel DebugLevel] else [])
                   @ [Log InfoLevel ''[main] starting tpclash...'',
                      NotifyContext [SIGINT, SIGTERM, SIGHUP],
                      CallSysctl, CallExtractFiles, CallWatchConfig]
         in case first_value W of
              None \<Rightarrow>
                \<lparr> main_events = evs, reload_events = [], files_after = fs,
                  outcome = BlockedOnRecv \<rparr>
            | Some clashConfStr \<Rightarrow>
                after_events (evs @ [Recv clashConfStr])
                  (start_with E conf W clashConfStr fs)))"

subsection \<open>Reading event lists\<close>

text \<open>
  \<open>preceded_by P Q evs\<close>: no event satisfying \<open>Q\<close> occurs in \<open>evs\<close> unless an event
  satisfying \<open>P\<close> has occurred earlier.
\<close>

fun preceded_by :: "(event \<Rightarrow> bool) \<Rightarrow> (event \<Rightarrow> bool) \<Rightarrow> event list \<Rightarrow> bool" where
  "preceded_by P Q [] = True"
| "preceded_by P Q (e # es) = (if P e then True else if Q e then False else preceded_by P Q es)"

text \<open>
  \<open>one_at_a_time busy evs\<close>, where \<open>busy\<close> says whether a call of \<open>cli.Do\<close> has not
  returned yet: in \<open>evs\<close> no call starts and no value is received while a call is in
  flight, every return ends a call, and no call is in flight at the end.
\<close>

fun one_at_a_time :: "bool \<Rightarrow> event list \<Rightarrow> bool" where
  "one_at_a_time busy [] = (\<not> busy)"
| "one_at_a_time busy (e # es) =
     (if is_Do e then \<not> busy \<and> one_at_a_time True es
      else if is_DoReturned e then busy \<and> one_at_a_time False es
      else if is_Recv e then \<not> busy \<and> one_at_a_time busy es
      else one_at_a_time busy es)"


subsection \<open>The persisted configuration, as specified\<close>

text \<open>
  The specification's reading of the file after a sequence of updates: the last update
  that passes the loop's validation, or the configuration \<open>cur\<close> stored before the
  sequence if none does.
\<close>

fun last_valid_update :: "env \<Rightarrow> string \<Rightarrow> string list \<Rightarrow> string" where
  "last_valid_update E cur [] = cur"
| "last_valid_update E cur (c # cs) =
     last_valid_update E (if isl (CheckConfig E (AutoFix E c)) then cur else c) cs"

text \<open>
  The same with the text that validation is run on: the auto-fixed text of the last
  update whose auto-fixed text passes \<open>CheckConfig\<close>.
\<close>

fun last_fixed_update :: "env \<Rightarrow> string \<Rightarrow> string list \<Rightarrow> string" where
  "last_fixed_update E cur [] = cur"
| "last_fixed_update E cur (c # cs) =
     last_fixed_update E (if isl (CheckConfig E (AutoFix E c)) then cur else AutoFix E c) cs"

subsection \<open>A concrete environment\<close>

text \<open>
  Small stand-ins for the helpers, used to run the model: a validator that accepts two
  texts, an auto-fix that repairs one misspelt text, path joining with a slash, and a
  URL check that rejects blanks.
\<close>

definition sample_CheckConfig :: "string \<Rightarrow> string + ClashConf" where
  "sample_CheckConfig s =
     (if s = ''A'' then Inr \<lparr> ExternalController = ''192.168.1.1:9090'', Secret = ''s3cret'' \<rparr>
      else if s = ''B'' then Inr \<lparr> ExternalController = [], Secret = [] \<rparr>
      else Inl ''yaml: unmarshal errors'')"

definition sample_AutoFix :: "string \<Rightarrow> string" where
  "sample_AutoFix s = (if s = ''a'' then ''A'' else s)"

definition sample_Join :: "string \<Rightarrow> string \<Rightarrow> string" where
  "sample_Join dir name = dir @ ''/'' @ name"

definition sample_NewRequest_err :: "string \<Rightarrow> string \<Rightarrow> string option" where
  "sample_NewRequest_err method url =
     (if CHR '' '' \<in> set url then Some ''invalid character in host name'' else None)"

definition sample_env :: env where
  "sample_env =
     \<lparr> logo = ''TPCLASH'', version = ''v0.1'', build = ''today'', clash = ''premium'',
       commit = ''0000'',
       InternalConfigName = ''xclash.yaml'', InternalClashBinName = ''xclash'',
       filepath_Join = sample_Join, CheckConfig = sample_CheckConfig,
       AutoFix = sample_AutoFix, NewRequest_err = sample_NewRequest_err \<rparr>"

text \<open>The defaults of the flags.\<close>

definition sample_conf :: TPClashConf where
  "sample_conf =
     \<lparr> Debug = False, ClashHome = ''/data/clash'', ClashConfig = ''/etc/clash.yaml'',
       ClashUI = ''yacd'', CheckInterval = 120000000000, HttpHeader = [],
       DisableExtract = False, PrintVersion = False \<rparr>"

definition sample_path :: string where
  "sample_path = ''/data/clash/xclash.yaml''"

text \<open>
  A run in which every call succeeds, no later configuration arrives and SIGTERM ends
  the wait.
\<close>

definition sample_world :: world where
  "sample_world =
     \<lparr> first_value = Some ''B'', first_write = WriteOk, Start_result = Inr 4242,
       NewProxyMode_err = None, EnableProxy_err = None, later_values = [],
       signal_received = Some SIGTERM, DisableProxy_err = None, Kill_err = None \<rparr>"

definition no_files :: files where
  "no_files = Map.empty"

definition ok_update :: "string \<Rightarrow> int \<Rightarrow> update" where
  "ok_update c status =
     \<lparr> sent = c, update_write = WriteOk,
       update_do = Inr \<lparr> StatusCode = status, RespBody = ''body'' \<rparr> \<rparr>"

text \<open>
  The same run with three later values: one that the auto-fix repairs, one that stays
  invalid, and a valid one that the controller answers with status 500.
\<close>

definition busy_world :: world where
  "busy_world =
     sample_world\<lparr> later_values := [ok_update ''a'' 204, ok_update ''junk'' 204, ok_update ''B'' 500] \<rparr>"

text \<open>A valid update whose write fails after the file has been truncated.\<close>

definition failed_write_update :: update where
  "failed_write_update =
     \<lparr> sent = ''A'', update_write = WriteErr ''no space left on device'' (Some []),
       update_do = Inl ''not sent'' \<rparr>"

section \<open>Properties\<close>

subsection \<open>Facts about the model\<close>

lemmas sample_defs = sample_env_def sample_conf_def sample_world_def sample_CheckConfig_def
  sample_AutoFix_def sample_Join_def sample_NewRequest_err_def ok_update_def sample_path_def
  no_files_def busy_world_def failed_write_update_def

lemmas main_defs = Run_def start_with_def enable_and_serve_def spawn_def await_done_def
  after_events_def shutdown_def clashConfPath_of_def cmd_Args_def WriteFile_effect_def Let_def

lemmas reload_defs = handle_update_def send_reload_def reload_request_def apiAddr_of_def

lemma preceded_by_append:
  "preceded_by P Q (xs @ ys) =
     (if list_ex P xs then preceded_by P Q xs else \<not> list_ex Q xs \<and> preceded_by P Q ys)"
  by (induction xs) auto

text \<open>\<open>Run\<close> returns, other than after printing the version, only from the shutdown path.\<close>

lemma Run_Returned_cases:
  assumes "\<not> PrintVersion conf" and "outcome (Run E conf W fs) = Returned"
  shows "\<exists>c cc. first_value W = Some c \<and> CheckConfig E c = Inr cc \<and> first_write W = WriteOk
           \<and> NewProxyMode_err W = None \<and> EnableProxy_err W = None
           \<and> (isl (Start_result W) \<or> signal_received W \<noteq> None)"
  using assms
  by (auto simp: Run_def start_with_def enable_and_serve_def spawn_def await_done_def
        after_events_def Let_def
      split: option.splits sum.splits write_result.splits prod.splits if_splits)

text \<open>The main goroutine's events of a run that gets as far as the wait of line 149.\<close>

lemma main_events_serving:
  assumes "\<not> PrintVersion conf" and "first_value W = Some c" and "CheckConfig E c = Inr cc"
    and "first_write W = WriteOk" and "NewProxyMode_err W = None" and "EnableProxy_err W = None"
  shows "main_events (Run E conf W fs) =
           (if Debug conf then [SetLevel DebugLevel] else [])
           @ [Log InfoLevel ''[main] starting tpclash...'', NotifyContext [SIGINT, SIGTERM, SIGHUP],
              CallSysctl, CallExtractFiles, CallWatchConfig, Recv c,
              WriteFile (clashConfPath_of E conf) c 420]
           @ fst (spawn E conf W)
           @ [CallNewProxyMode, CallEnableProxy, Go, Log InfoLevel standby_msg]
           @ fst (await_done W (snd (snd (spawn E conf W))) (fst (snd (spawn E conf W))))"
  using assms
  by (simp add: Run_def start_with_def enable_and_serve_def after_events_def
        split: prod.splits)

lemma spawn_Inr:
  "Start_result W = Inr pid \<Longrightarrow>
   spawn E conf W =
     ([Logf InfoLevel ''[main] running cmds: %v'' [AList (cmd_Args E conf)],
       Start (cmd_Args E conf) [CAP_NET_BIND_SERVICE, CAP_NET_ADMIN, CAP_NET_RAW]],
      Some pid, False)"
  by (simp add: spawn_def Let_def)

lemma spawn_Inl:
  "Start_result W = Inl err \<Longrightarrow>
   spawn E conf W =
     ([Logf InfoLevel ''[main] running cmds: %v'' [AList (cmd_Args E conf)],
       Start (cmd_Args E conf) [CAP_NET_BIND_SERVICE, CAP_NET_ADMIN, CAP_NET_RAW],
       Log ErrorLevel err, Cancel,
       Logf ErrorLevel ''failed to start clash process: %v'' [AList (cmd_Args E conf)], Cancel],
      None, True)"
  by (simp add: spawn_def Let_def)

text \<open>The rest of a run that gets as far as the wait, and a run up to \<open>NewProxyMode\<close>.\<close>

lemma reload_events_serving:
  assumes "\<not> PrintVersion conf" and "first_value W = Some c" and "CheckConfig E c = Inr cc"
    and "first_write W = WriteOk" and "NewProxyMode_err W = None" and "EnableProxy_err W = None"
  shows "reload_events (Run E conf W fs) =
           fst (reload_loop E (clashConfPath_of E conf) (later_values W)
                  (fs(clashConfPath_of E conf \<mapsto> c)))"
    and "files_after (Run E conf W fs) =
           snd (reload_loop E (clashConfPath_of E conf) (later_values W)
                  (fs(clashConfPath_of E conf \<mapsto> c)))"
    and "outcome (Run E conf W fs) =
           (if isl (Start_result W) \<or> signal_received W \<noteq> None then Returned else BlockedOnDone)"
  using assms
  by (auto simp: Run_def start_with_def enable_and_serve_def after_events_def spawn_def
        await_done_def WriteFile_effect_def Let_def
        split: prod.splits sum.splits)

lemma main_events_to_enable:
  assumes "\<not> PrintVersion conf" and "first_value W = Some c" and "CheckConfig E c = Inr cc"
    and "first_write W = WriteOk" 
  shows "main_events (Run E conf W fs) =
           (if Debug conf then [SetLevel DebugLevel] else [])
           @ [Log InfoLevel ''[main] starting tpclash...'', NotifyContext [SIGINT, SIGTERM, SIGHUP],
              CallSysctl, CallExtractFiles, CallWatchConfig, Recv c,
              WriteFile (clashConfPath_of E conf) c 420]
           @ fst (spawn E conf W)
           @ main_events (enable_and_serve E conf W (fst (snd (spawn E conf W)))
                 (snd (snd (spawn E conf W))) (fs(clashConfPath_of E conf \<mapsto> c)))"
    and "reload_events (Run E conf W fs) =
           reload_events (enable_and_serve E conf W (fst (snd (spawn E conf W)))
                 (snd (snd (spawn E conf W))) (fs(clashConfPath_of E conf \<mapsto> c)))"
    and "outcome (Run E conf W fs) =
           outcome (enable_and_serve E conf W (fst (snd (spawn E conf W)))
                 (snd (snd (spawn E conf W))) (fs(clashConfPath_of E conf \<mapsto> c)))"
  using assms
  by (simp_all add: Run_def start_with_def after_events_def WriteFile_effect_def
        split: prod.splits)

lemma spawn_events_cases:
  "fst (spawn E conf W) =
     [Logf InfoLevel ''[main] running cmds: %v'' [AList (cmd_Args E conf)],
      Start (cmd_Args E conf) [CAP_NET_BIND_SERVICE, CAP_NET_ADMIN, CAP_NET_RAW]]
     @ (case Start_result W of
          Inl err \<Rightarrow> [Log ErrorLevel err, Cancel,
                      Logf ErrorLevel ''failed to start clash process: %v'' [AList (cmd_Args E conf)],
                      Cancel]
        | Inr pid \<Rightarrow> [])"
  by (simp add: spawn_def Let_def split: sum.splits)

text \<open>The events of the reload goroutine do not depend on the files.\<close>

lemma handle_update_events_files:
  "fst (handle_update E p u fs) = fst (handle_update E p u fs')"
  by (simp add: handle_update_def Let_def split: sum.splits write_result.splits)

lemma reload_loop_events:
  "fst (reload_loop E p us fs) = concat (map (\<lambda>u. fst (handle_update E p u fs0)) us)"
proof (induction us arbitrary: fs)
  case Nil
  show ?case by simp
next
  case (Cons u us)
  show ?case
    using Cons.IH handle_update_events_files [of E p u fs fs0]
    by (simp add: split_beta Let_def)
qed

text \<open>A run that stops before line 100 has no reload goroutine and no shutdown.\<close>

lemma Run_not_serving:
  assumes "\<not> (\<not> PrintVersion conf \<and> (\<exists>c cc. first_value W = Some c \<and> CheckConfig E c = Inr cc)
                \<and> first_write W = WriteOk \<and> NewProxyMode_err W = None \<and> EnableProxy_err W = None)"
  shows "reload_events (Run E conf W fs) = []"
    and "\<not> list_ex is_Go (main_events (Run E conf W fs))"
    and "\<not> list_ex is_DisableProxy (main_events (Run E conf W fs))"
    and "\<not> list_ex is_Kill (main_events (Run E conf W fs))"
    and "filter is_Recv (main_events (Run E conf W fs)) =
           (case first_value W of None \<Rightarrow> [] | Some c \<Rightarrow> if PrintVersion conf then [] else [Recv c])"
  using assms
  by (auto simp: Run_def start_with_def enable_and_serve_def after_events_def
        spawn_events_cases split_beta Let_def
        split: option.splits sum.splits write_result.splits)

lemma reload_events_Run:
  "reload_events (Run E conf W fs) =
     (if list_ex is_Go (main_events (Run E conf W fs))
      then concat (map (\<lambda>u. fst (handle_update E (clashConfPath_of E conf) u fs0)) (later_values W))
      else [])"
proof (cases "\<not> PrintVersion conf \<and> (\<exists>c cc. first_value W = Some c \<and> CheckConfig E c = Inr cc)
                \<and> first_write W = WriteOk \<and> NewProxyMode_err W = None \<and> EnableProxy_err W = None")
  case True
  then obtain c cc where h: "\<not> PrintVersion conf" "first_value W = Some c" "CheckConfig E c = Inr cc"
    "first_write W = WriteOk" "NewProxyMode_err W = None" "EnableProxy_err W = None"
    by blast
  show ?thesis
    by (simp add: reload_events_serving(1) [OF h] main_events_serving [OF h]
          reload_loop_events [where ?fs0.0 = fs0])
next
  case False
  then show ?thesis
    by (simp add: Run_not_serving(1,2))
qed

lemma one_at_a_time_append:
  "one_at_a_time b xs \<Longrightarrow> one_at_a_time False ys \<Longrightarrow> one_at_a_time b (xs @ ys)"
  by (induction xs arbitrary: b) (auto split: if_splits)

lemma one_at_a_time_handle_update:
  "one_at_a_time False (fst (handle_update E p u fs))"
  by (simp add: handle_update_def send_reload_def Let_def
        split: sum.splits write_result.splits option.splits)

lemma one_at_a_time_concat:
  "(\<And>x. x \<in> set xs \<Longrightarrow> one_at_a_time False (f x)) \<Longrightarrow> one_at_a_time False (concat (map f xs))"
  by (induction xs) (simp_all add: one_at_a_time_append)

lemma Recv_handle_update:
  "filter is_Recv (fst (handle_update E p u fs)) = [Recv (sent u)]"
  by (simp add: handle_update_def send_reload_def Let_def
        split: sum.splits write_result.splits option.splits)

lemma filter_concat_map_single:
  "(\<And>x. x \<in> set xs \<Longrightarrow> filter P (f x) = [g x]) \<Longrightarrow> filter P (concat (map f xs)) = map g xs"
  by (induction xs) simp_all

lemma Recv_main_events:
  "filter is_Recv (main_events (Run E conf W fs)) =
     (case first_value W of None \<Rightarrow> [] | Some c \<Rightarrow> if PrintVersion conf then [] else [Recv c])"
proof (cases "\<not> PrintVersion conf \<and> (\<exists>c cc. first_value W = Some c \<and> CheckConfig E c = Inr cc)
                \<and> first_write W = WriteOk \<and> NewProxyMode_err W = None \<and> EnableProxy_err W = None")
  case True
  then obtain c cc where h: "\<not> PrintVersion conf" "first_value W = Some c" "CheckConfig E c = Inr cc"
    "first_write W = WriteOk" "NewProxyMode_err W = None" "EnableProxy_err W = None"
    by blast
  show ?thesis
    using h(1,2)
    by (simp add: main_events_serving [OF h] spawn_events_cases await_done_def shutdown_def
          split: sum.splits option.splits)
next
  case False
  then show ?thesis
    by (rule Run_not_serving(5))
qed

lemma Go_main_events:
  "length (filter is_Go (main_events (Run E conf W fs))) \<le> 1"
proof (cases "\<not> PrintVersion conf \<and> (\<exists>c cc. first_value W = Some c \<and> CheckConfig E c = Inr cc)
                \<and> first_write W = WriteOk \<and> NewProxyMode_err W = None \<and> EnableProxy_err W = None")
  case True
  then obtain c cc where h: "\<not> PrintVersion conf" "first_value W = Some c" "CheckConfig E c = Inr cc"
    "first_write W = WriteOk" "NewProxyMode_err W = None" "EnableProxy_err W = None"
    by blast
  show ?thesis
    by (simp add: main_events_serving [OF h] spawn_events_cases await_done_def shutdown_def
          split: sum.splits option.splits)
next
  case False
  from Run_not_serving(2) [OF this, of fs] have "filter is_Go (main_events (Run E conf W fs)) = []"
    by (simp add: list_ex_iff filter_empty_conv)
  then show ?thesis by simp
qed



lemma snd_handle_update:
  "snd (handle_update E p u fs) =
     (case CheckConfig E (AutoFix E (sent u)) of
        Inl err \<Rightarrow> fs
      | Inr cc \<Rightarrow> WriteFile_effect p (AutoFix E (sent u)) (update_write u) fs)"
  by (simp add: handle_update_def Let_def split: sum.splits write_result.splits)

lemma reload_loop_files:
  "list_all (\<lambda>u. update_write u = WriteOk) us \<Longrightarrow> fs p = Some cur \<Longrightarrow>
   snd (reload_loop E p us fs) p = Some (last_fixed_update E cur (map sent us))"
proof (induction us arbitrary: fs cur)
  case Nil
  then show ?case by simp
next
  case (Cons u us)
  from Cons.prems have w: "update_write u = WriteOk"
    and ws: "list_all (\<lambda>u. update_write u = WriteOk) us"
    by simp_all
  show ?case
  proof (cases "CheckConfig E (AutoFix E (sent u))")
    case (Inl err)
    then have "snd (handle_update E p u fs) = fs"
      by (simp add: snd_handle_update)
    with Cons.IH [where fs = fs and cur = cur, OF ws Cons.prems(2)] Inl show ?thesis
      by (simp add: split_beta Let_def)
  next
    case (Inr cc)
    then have "snd (handle_update E p u fs) p = Some (AutoFix E (sent u))"
      using w by (simp add: snd_handle_update WriteFile_effect_def)
    from Cons.IH [where fs = "snd (handle_update E p u fs)" and cur = "AutoFix E (sent u)",
                  OF ws this] Inr show ?thesis
      by (simp add: split_beta Let_def)
  qed
qed

lemma last_fixed_update_valid:
  "\<not> isl (CheckConfig E cur) \<Longrightarrow> \<not> isl (CheckConfig E (last_fixed_update E cur cs))"
  by (induction cs arbitrary: cur) simp_all

subsection \<open>Shutdown order\<close>

text \<open>
  Claim C1. Whenever \<open>Run\<close> returns through the shutdown path (the context was cancelled
  by SIGINT, SIGTERM or SIGHUP, or by \<open>cancel()\<close>), \<open>DisableProxy\<close> has been called, and
  called before any \<open>Kill\<close>; \<open>Kill\<close> is attempted exactly when \<open>cmd.Start\<close> produced
  a process handle; an error of \<open>DisableProxy\<close> is logged right after the call and so is
  an error of \<open>Kill\<close>; and in every case the run goes on to the closing log line and
  the deferred \<open>cancel()\<close>.
\<close>

theorem shutdown_disables_proxy_before_kill:
  assumes "\<not> PrintVersion conf" and "outcome (Run E conf W fs) = Returned"
  shows "list_ex is_DisableProxy (main_events (Run E conf W fs))
       \<and> preceded_by is_DisableProxy is_Kill (main_events (Run E conf W fs))
       \<and> list_ex is_Kill (main_events (Run E conf W fs)) = (\<exists>pid. Start_result W = Inr pid)
       \<and> (\<forall>err. DisableProxy_err W = Some err \<longrightarrow>
             sublist [CallDisableProxy, Log ErrorLevel err] (main_events (Run E conf W fs)))
       \<and> (\<forall>pid err. Start_result W = Inr pid \<longrightarrow> Kill_err W = Some err \<longrightarrow>
             sublist [Kill pid, Log ErrorLevel err] (main_events (Run E conf W fs)))
       \<and> suffix [Log InfoLevel stopped_msg, Cancel] (main_events (Run E conf W fs))"
proof -
  from Run_Returned_cases [OF assms] obtain c cc where
    h: "first_value W = Some c" "CheckConfig E c = Inr cc" "first_write W = WriteOk"
       "NewProxyMode_err W = None" "EnableProxy_err W = None"
       "isl (Start_result W) \<or> signal_received W \<noteq> None"
    by blast
  note ev = main_events_serving [OF assms(1) h(1-5)]
  show ?thesis
  proof (cases "Start_result W")
    case (Inl err)
    show ?thesis
      unfolding ev
      by (auto simp: spawn_Inl [OF Inl] Inl await_done_def shutdown_def
            sublist_Cons_right suffix_Cons split: option.splits)
  next
    case (Inr pid)
    with h(6) have s: "signal_received W \<noteq> None" by simp
    show ?thesis
      unfolding ev using s
      by (auto simp: spawn_Inr [OF Inr] Inr await_done_def shutdown_def
            sublist_Cons_right suffix_Cons split: option.splits)
  qed
qed

theorem shutdown_disables_proxy_before_kill_witness:
  "\<not> PrintVersion sample_conf
   \<and> outcome (Run sample_env sample_conf
        (sample_world\<lparr> DisableProxy_err := Some ''resource busy'',
                        Kill_err := Some ''process already finished'' \<rparr>) no_files) = Returned
   \<and> list_ex is_DisableProxy (main_events (Run sample_env sample_conf
        (sample_world\<lparr> DisableProxy_err := Some ''resource busy'',
                        Kill_err := Some ''process already finished'' \<rparr>) no_files))
   \<and> preceded_by is_DisableProxy is_Kill (main_events (Run sample_env sample_conf
        (sample_world\<lparr> DisableProxy_err := Some ''resource busy'',
                        Kill_err := Some ''process already finished'' \<rparr>) no_files))
   \<and> list_ex is_Kill (main_events (Run sample_env sample_conf
        (sample_world\<lparr> DisableProxy_err := Some ''resource busy'',
                        Kill_err := Some ''process already finished'' \<rparr>) no_files))
   \<and> sublist [CallDisableProxy, Log ErrorLevel ''resource busy'']
        (main_events (Run sample_env sample_conf
          (sample_world\<lparr> DisableProxy_err := Some ''resource busy'',
                          Kill_err := Some ''process already finished'' \<rparr>) no_files))
   \<and> sublist [Kill 4242, Log ErrorLevel ''process already finished'']
        (main_events (Run sample_env sample_conf
          (sample_world\<lparr> DisableProxy_err := Some ''resource busy'',
                          Kill_err := Some ''process already finished'' \<rparr>) no_files))
   \<and> suffix [Log InfoLevel stopped_msg, Cancel]
        (main_events (Run sample_env sample_conf
          (sample_world\<lparr> DisableProxy_err := Some ''resource busy'',
                          Kill_err := Some ''process already finished'' \<rparr>) no_files))"
proof -
  have h1: "\<not> PrintVersion sample_conf"
    by (simp add: sample_conf_def)
  have h2: "outcome (Run sample_env sample_conf
              (sample_world\<lparr> DisableProxy_err := Some ''resource busy'',
                              Kill_err := Some ''process already finished'' \<rparr>) no_files) = Returned"
    by (simp add: sample_defs main_defs)
  have h3: "Start_result (sample_world\<lparr> DisableProxy_err := Some ''resource busy'',
              Kill_err := Some ''process already finished'' \<rparr>) = Inr 4242"
    by (simp add: sample_world_def)
  show ?thesis
    using shutdown_disables_proxy_before_kill [OF h1 h2] h1 h2 h3
    by simp
qed

subsection \<open>The version flag\<close>

text \<open>
  Claim C9. With the print-version flag set, \<open>Run\<close> prints the banner and returns: that
  is its only event, so there is no call of \<open>Sysctl\<close>, \<open>ExtractFiles\<close> or
  \<open>WatchConfig\<close>, no file write, no process start and no proxy call; the reload
  goroutine does not exist and the files are as they were.
\<close>

theorem print_version_only:
  assumes "PrintVersion conf"
  shows "Run E conf W fs =
           \<lparr> main_events = [Printf banner_format
                               [AStr (logo E), AStr (version E), AStr (build E),
                                AStr (clash E), AStr (commit E)]],
             reload_events = [], files_after = fs, outcome = Returned \<rparr>"
  using assms by (simp add: Run_def)

theorem print_version_only_witness:
  "PrintVersion (sample_conf\<lparr> PrintVersion := True \<rparr>)
   \<and> Run sample_env (sample_conf\<lparr> PrintVersion := True \<rparr>) sample_world no_files =
       \<lparr> main_events = [Printf banner_format
                           [AStr ''TPCLASH'', AStr ''v0.1'', AStr ''today'',
                            AStr ''premium'', AStr ''0000'']],
         reload_events = [], files_after = no_files, outcome = Returned \<rparr>"
proof -
  have h: "PrintVersion (sample_conf\<lparr> PrintVersion := True \<rparr>)"
    by simp
  show ?thesis
    using print_version_only [OF h, of sample_env sample_world no_files] h
    by (simp add: sample_env_def)
qed

subsection \<open>The first configuration\<close>

text \<open>
  Claim C2. The startup path waits for the first value of the channel: if none is ever
  sent, the main goroutine stays blocked on the receive, right after \<open>WatchConfig\<close>,
  and nothing is started or enabled. If \<open>CheckConfig\<close> rejects the first value, the
  run ends in \<open>logrus.Fatal\<close> straight after the receive: no file is written, the Clash
  process is not started, \<open>EnableProxy\<close> is not called and there is no reload
  goroutine. In every run a process start and a call of \<open>EnableProxy\<close> come after
  the receive.
\<close>

theorem first_config_gate:
  assumes "\<not> PrintVersion conf"
  shows "(first_value W = None \<longrightarrow>
            outcome (Run E conf W fs) = BlockedOnRecv
          \<and> suffix [CallWatchConfig] (main_events (Run E conf W fs))
          \<and> \<not> list_ex is_Start (main_events (Run E conf W fs))
          \<and> \<not> list_ex is_EnableProxy (main_events (Run E conf W fs)))
       \<and> (\<forall>c err. first_value W = Some c \<longrightarrow> CheckConfig E c = Inl err \<longrightarrow>
            outcome (Run E conf W fs) = Exited 1
          \<and> suffix [CallWatchConfig, Recv c, Log FatalLevel err] (main_events (Run E conf W fs))
          \<and> \<not> list_ex is_WriteFile (main_events (Run E conf W fs))
          \<and> \<not> list_ex is_Start (main_events (Run E conf W fs))
          \<and> \<not> list_ex is_EnableProxy (main_events (Run E conf W fs))
          \<and> reload_events (Run E conf W fs) = []
          \<and> files_after (Run E conf W fs) = fs)
       \<and> preceded_by is_Recv is_Start (main_events (Run E conf W fs))
       \<and> preceded_by is_Recv is_EnableProxy (main_events (Run E conf W fs))"
proof (intro conjI allI impI)
  assume "first_value W = None"
  then show "outcome (Run E conf W fs) = BlockedOnRecv"
    and "suffix [CallWatchConfig] (main_events (Run E conf W fs))"
    and "\<not> list_ex is_Start (main_events (Run E conf W fs))"
    and "\<not> list_ex is_EnableProxy (main_events (Run E conf W fs))"
    using assms by (simp_all add: Run_def suffix_Cons suffix_append)
next
  fix c err assume "first_value W = Some c" and "CheckConfig E c = Inl err"
  then show "outcome (Run E conf W fs) = Exited 1"
    and "suffix [CallWatchConfig, Recv c, Log FatalLevel err] (main_events (Run E conf W fs))"
    and "\<not> list_ex is_WriteFile (main_events (Run E conf W fs))"
    and "\<not> list_ex is_Start (main_events (Run E conf W fs))"
    and "\<not> list_ex is_EnableProxy (main_events (Run E conf W fs))"
    and "reload_events (Run E conf W fs) = []"
    and "files_after (Run E conf W fs) = fs"
    using assms
    by (simp_all add: Run_def start_with_def after_events_def suffix_Cons suffix_append)
next
  show "preceded_by is_Recv is_Start (main_events (Run E conf W fs))"
    using assms
    by (simp add: Run_def after_events_def preceded_by_append Let_def split: option.splits)
  show "preceded_by is_Recv is_EnableProxy (main_events (Run E conf W fs))"
    using assms
    by (simp add: Run_def after_events_def preceded_by_append Let_def split: option.splits)
qed

theorem first_config_gate_witness:
  "outcome (Run sample_env sample_conf (sample_world\<lparr> first_value := None \<rparr>) no_files)
     = BlockedOnRecv
   \<and> \<not> list_ex is_Start
         (main_events (Run sample_env sample_conf (sample_world\<lparr> first_value := None \<rparr>) no_files))
   \<and> outcome (Run sample_env sample_conf (sample_world\<lparr> first_value := Some ''junk'' \<rparr>) no_files)
     = Exited 1
   \<and> suffix [CallWatchConfig, Recv ''junk'', Log FatalLevel ''yaml: unmarshal errors'']
        (main_events (Run sample_env sample_conf
           (sample_world\<lparr> first_value := Some ''junk'' \<rparr>) no_files))
   \<and> \<not> list_ex is_Start
         (main_events (Run sample_env sample_conf
            (sample_world\<lparr> first_value := Some ''junk'' \<rparr>) no_files))
   \<and> \<not> list_ex is_EnableProxy
         (main_events (Run sample_env sample_conf
            (sample_world\<lparr> first_value := Some ''junk'' \<rparr>) no_files))
   \<and> files_after (Run sample_env sample_conf
        (sample_world\<lparr> first_value := Some ''junk'' \<rparr>) no_files) = no_files"
proof -
  have c: "CheckConfig sample_env ''junk'' = Inl ''yaml: unmarshal errors''"
    by (simp add: sample_env_def sample_CheckConfig_def)
  have p: "\<not> PrintVersion sample_conf"
    by (simp add: sample_conf_def)
  show ?thesis
    using first_config_gate [OF p, of "sample_world\<lparr> first_value := None \<rparr>" sample_env no_files]
          first_config_gate [OF p, of "sample_world\<lparr> first_value := Some ''junk'' \<rparr>"
             sample_env no_files] c
    by simp
qed

subsection \<open>Failures of the proxy mode\<close>

text \<open>
  Claim C4. In a run that has reached \<open>EnableProxy\<close>, an error of \<open>EnableProxy\<close> ends
  the run in \<open>logrus.Fatalf\<close> right after the call: the reload goroutine is never
  started and neither \<open>DisableProxy\<close> nor \<open>Kill\<close> is called. An error of
  \<open>DisableProxy\<close> during a shutdown started by a signal is logged, the next event is
  the \<open>Kill\<close> of the child (when there is one), and the run returns after the closing
  log line.
\<close>

theorem enable_failure_fatal_disable_failure_logged:
  assumes "\<not> PrintVersion conf" and "first_value W = Some c" and "CheckConfig E c = Inr cc"
    and "first_write W = WriteOk" and "NewProxyMode_err W = None"
  shows "(\<forall>err. EnableProxy_err W = Some err \<longrightarrow>
            outcome (Run E conf W fs) = Exited 1
          \<and> suffix [CallEnableProxy, Logf FatalLevel ''[main] failed to enable proxy: %v'' [AStr err]]
              (main_events (Run E conf W fs))
          \<and> \<not> list_ex is_Go (main_events (Run E conf W fs))
          \<and> reload_events (Run E conf W fs) = []
          \<and> \<not> list_ex is_DisableProxy (main_events (Run E conf W fs))
          \<and> \<not> list_ex is_Kill (main_events (Run E conf W fs)))
       \<and> (\<forall>err sig. EnableProxy_err W = None \<longrightarrow> DisableProxy_err W = Some err \<longrightarrow>
            signal_received W = Some sig \<longrightarrow>
            outcome (Run E conf W fs) = Returned
          \<and> sublist ([CallDisableProxy, Log ErrorLevel err]
                      @ (case Start_result W of Inl e \<Rightarrow> [] | Inr pid \<Rightarrow> [Kill pid]))
              (main_events (Run E conf W fs))
          \<and> suffix [Log InfoLevel stopped_msg, Cancel] (main_events (Run E conf W fs)))"
proof (intro conjI allI impI)
  fix err assume e: "EnableProxy_err W = Some err"
  note ev = main_events_to_enable [OF assms(1-4), of fs]
  show "outcome (Run E conf W fs) = Exited 1"
    using assms(5) e by (simp add: ev enable_and_serve_def)
  show "suffix [CallEnableProxy, Logf FatalLevel ''[main] failed to enable proxy: %v'' [AStr err]]
          (main_events (Run E conf W fs))"
    using assms(5) e by (simp add: ev enable_and_serve_def suffix_Cons suffix_append)
  show "\<not> list_ex is_Go (main_events (Run E conf W fs))"
    using assms(5) e by (simp add: ev enable_and_serve_def spawn_events_cases split: sum.splits)
  show "reload_events (Run E conf W fs) = []"
    using assms(5) e by (simp add: ev enable_and_serve_def)
  show "\<not> list_ex is_DisableProxy (main_events (Run E conf W fs))"
    using assms(5) e by (simp add: ev enable_and_serve_def spawn_events_cases split: sum.splits)
  show "\<not> list_ex is_Kill (main_events (Run E conf W fs))"
    using assms(5) e by (simp add: ev enable_and_serve_def spawn_events_cases split: sum.splits)
next
  fix err sig
  assume e: "EnableProxy_err W = None" and d: "DisableProxy_err W = Some err"
    and s: "signal_received W = Some sig"
  note ev = main_events_serving [OF assms e, of fs]
  show "outcome (Run E conf W fs) = Returned"
    using s by (simp add: reload_events_serving(3) [OF assms e])
  show "sublist ([CallDisableProxy, Log ErrorLevel err]
                  @ (case Start_result W of Inl e \<Rightarrow> [] | Inr pid \<Rightarrow> [Kill pid]))
          (main_events (Run E conf W fs))"
    unfolding ev using s d
    by (cases "Start_result W")
       (auto simp: spawn_Inl spawn_Inr await_done_def shutdown_def sublist_Cons_right
          split: option.splits)
  show "suffix [Log InfoLevel stopped_msg, Cancel] (main_events (Run E conf W fs))"
    unfolding ev using s d
    by (cases "Start_result W")
       (auto simp: spawn_Inl spawn_Inr await_done_def shutdown_def suffix_Cons
          split: option.splits)
qed

theorem enable_failure_fatal_disable_failure_logged_witness:
  "outcome (Run sample_env sample_conf
      (sample_world\<lparr> EnableProxy_err := Some ''iptables failed'' \<rparr>) no_files) = Exited 1
   \<and> suffix [CallEnableProxy,
              Logf FatalLevel ''[main] failed to enable proxy: %v'' [AStr ''iptables failed'']]
        (main_events (Run sample_env sample_conf
           (sample_world\<lparr> EnableProxy_err := Some ''iptables failed'' \<rparr>) no_files))
   \<and> \<not> list_ex is_Kill (main_events (Run sample_env sample_conf
           (sample_world\<lparr> EnableProxy_err := Some ''iptables failed'' \<rparr>) no_files))
   \<and> outcome (Run sample_env sample_conf
        (sample_world\<lparr> DisableProxy_err := Some ''resource busy'' \<rparr>) no_files) = Returned
   \<and> sublist [CallDisableProxy, Log ErrorLevel ''resource busy'', Kill 4242]
        (main_events (Run sample_env sample_conf
           (sample_world\<lparr> DisableProxy_err := Some ''resource busy'' \<rparr>) no_files))"
proof -
  have c: "CheckConfig sample_env ''B'' = Inr \<lparr> ExternalController = [], Secret = [] \<rparr>"
    by (simp add: sample_env_def sample_CheckConfig_def)
  have p: "\<not> PrintVersion sample_conf"
    by (simp add: sample_conf_def)
  show ?thesis
    using enable_failure_fatal_disable_failure_logged
            [OF p _ c, of "sample_world\<lparr> EnableProxy_err := Some ''iptables failed'' \<rparr>" no_files]
          enable_failure_fatal_disable_failure_logged
            [OF p _ c, of "sample_world\<lparr> DisableProxy_err := Some ''resource busy'' \<rparr>" no_files]
    by (simp add: sample_world_def)
qed

subsection \<open>A failed process start\<close>

text \<open>
  Claim C7. When \<open>cmd.Start\<close> fails, the error is logged and \<open>cancel()\<close> is called
  (twice, since \<open>cmd.Process\<close> is nil as well), and the very next step is
  \<open>NewProxyMode\<close>: the run does not stop. If \<open>NewProxyMode\<close> gives no error,
  \<open>EnableProxy\<close> is called next; if that gives no error either, the reload goroutine
  is started and handles the later values.
\<close>

theorem spawn_failure_falls_through:
  assumes "\<not> PrintVersion conf" and "first_value W = Some c" and "CheckConfig E c = Inr cc"
    and "first_write W = WriteOk" and "Start_result W = Inl err"
  shows "sublist [Start (cmd_Args E conf) [CAP_NET_BIND_SERVICE, CAP_NET_ADMIN, CAP_NET_RAW],
                  Log ErrorLevel err, Cancel,
                  Logf ErrorLevel ''failed to start clash process: %v'' [AList (cmd_Args E conf)],
                  Cancel, CallNewProxyMode]
           (main_events (Run E conf W fs))
       \<and> (NewProxyMode_err W = None \<longrightarrow>
            sublist [CallNewProxyMode, CallEnableProxy] (main_events (Run E conf W fs)))
       \<and> (NewProxyMode_err W = None \<longrightarrow> EnableProxy_err W = None \<longrightarrow>
            sublist [CallEnableProxy, Go] (main_events (Run E conf W fs))
          \<and> reload_events (Run E conf W fs) =
              fst (reload_loop E (clashConfPath_of E conf) (later_values W)
                     (fs(clashConfPath_of E conf \<mapsto> c))))"
proof (intro conjI impI)
  show "sublist [Start (cmd_Args E conf) [CAP_NET_BIND_SERVICE, CAP_NET_ADMIN, CAP_NET_RAW],
                  Log ErrorLevel err, Cancel,
                  Logf ErrorLevel ''failed to start clash process: %v'' [AList (cmd_Args E conf)],
                  Cancel, CallNewProxyMode]
           (main_events (Run E conf W fs))"
    by (auto simp: main_events_to_enable(1) [OF assms(1-4)] spawn_Inl [OF assms(5)]
          enable_and_serve_def sublist_Cons_right split: option.splits prod.splits)
next
  assume n: "NewProxyMode_err W = None"
  then show "sublist [CallNewProxyMode, CallEnableProxy] (main_events (Run E conf W fs))"
    by (auto simp: main_events_to_enable(1) [OF assms(1-4)] spawn_Inl [OF assms(5)]
          enable_and_serve_def sublist_Cons_right split: option.splits prod.splits)
next
  assume n: "NewProxyMode_err W = None" and e: "EnableProxy_err W = None"
  then show "sublist [CallEnableProxy, Go] (main_events (Run E conf W fs))"
    by (auto simp: main_events_to_enable(1) [OF assms(1-4)] spawn_Inl [OF assms(5)]
          enable_and_serve_def sublist_Cons_right split: option.splits prod.splits)
next
  assume n: "NewProxyMode_err W = None" and e: "EnableProxy_err W = None"
  show "reload_events (Run E conf W fs) =
          fst (reload_loop E (clashConfPath_of E conf) (later_values W)
                 (fs(clashConfPath_of E conf \<mapsto> c)))"
    by (rule reload_events_serving(1) [OF assms(1-4) n e])
qed

theorem spawn_failure_falls_through_witness:
  "sublist [Start (cmd_Args sample_env sample_conf)
              [CAP_NET_BIND_SERVICE, CAP_NET_ADMIN, CAP_NET_RAW],
            Log ErrorLevel ''exec format error'', Cancel,
            Logf ErrorLevel ''failed to start clash process: %v''
              [AList (cmd_Args sample_env sample_conf)],
            Cancel, CallNewProxyMode]
     (main_events (Run sample_env sample_conf
        (sample_world\<lparr> Start_result := Inl ''exec format error'' \<rparr>) no_files))
   \<and> sublist [CallNewProxyMode, CallEnableProxy]
        (main_events (Run sample_env sample_conf
           (sample_world\<lparr> Start_result := Inl ''exec format error'' \<rparr>) no_files))
   \<and> sublist [CallEnableProxy, Go]
        (main_events (Run sample_env sample_conf
           (sample_world\<lparr> Start_result := Inl ''exec format error'' \<rparr>) no_files))"
proof -
  have c: "CheckConfig sample_env ''B'' = Inr \<lparr> ExternalController = [], Secret = [] \<rparr>"
    by (simp add: sample_env_def sample_CheckConfig_def)
  have p: "\<not> PrintVersion sample_conf"
    by (simp add: sample_conf_def)
  show ?thesis
    using spawn_failure_falls_through
            [OF p _ c, of "sample_world\<lparr> Start_result := Inl ''exec format error'' \<rparr>"
               "''exec format error''" no_files]
    by (simp add: sample_world_def)
qed

subsection \<open>One update at a time\<close>

text \<open>
  Claim C8. At most one reload goroutine is started. The main goroutine receives the first
  value of the channel and no other. The reload goroutine, when it is started, receives
  the later values in channel order, each once. In its events no value is received and
  no call of \<open>cli.Do\<close> starts while an earlier call of \<open>cli.Do\<close> has not returned:
  an update is handled to the end, round trip included, before the next is read, and no
  two reload calls overlap.
\<close>

theorem reload_one_at_a_time:
  "length (filter is_Go (main_events (Run E conf W fs))) \<le> 1
   \<and> filter is_Recv (main_events (Run E conf W fs)) =
     (case first_value W of None \<Rightarrow> [] | Some c \<Rightarrow> if PrintVersion conf then [] else [Recv c])
   \<and> filter is_Recv (reload_events (Run E conf W fs)) =
       (if list_ex is_Go (main_events (Run E conf W fs))
        then map (\<lambda>u. Recv (sent u)) (later_values W) else [])
   \<and> one_at_a_time False (reload_events (Run E conf W fs))"
proof (intro conjI)
  show "length (filter is_Go (main_events (Run E conf W fs))) \<le> 1"
    by (rule Go_main_events)
  show "filter is_Recv (main_events (Run E conf W fs)) =
     (case first_value W of None \<Rightarrow> [] | Some c \<Rightarrow> if PrintVersion conf then [] else [Recv c])"
    by (rule Recv_main_events)
  show "filter is_Recv (reload_events (Run E conf W fs)) =
       (if list_ex is_Go (main_events (Run E conf W fs))
        then map (\<lambda>u. Recv (sent u)) (later_values W) else [])"
    by (simp add: reload_events_Run [where ?fs0.0 = fs] filter_concat_map_single Recv_handle_update)
  show "one_at_a_time False (reload_events (Run E conf W fs))"
    by (simp add: reload_events_Run [where ?fs0.0 = fs] one_at_a_time_concat
          one_at_a_time_handle_update)
qed

theorem reload_one_at_a_time_witness:
  "length (filter is_Go (main_events (Run sample_env sample_conf busy_world no_files))) \<le> 1
   \<and> filter is_Recv (main_events (Run sample_env sample_conf busy_world no_files)) = [Recv ''B'']
   \<and> filter is_Recv (reload_events (Run sample_env sample_conf busy_world no_files)) =
       [Recv ''a'', Recv ''junk'', Recv ''B'']
   \<and> one_at_a_time False (reload_events (Run sample_env sample_conf busy_world no_files))"
proof -
  have g: "list_ex is_Go (main_events (Run sample_env sample_conf busy_world no_files))"
    by (simp add: sample_defs main_defs reload_defs)
  have f: "first_value busy_world = Some ''B''" "\<not> PrintVersion sample_conf"
    "later_values busy_world = [ok_update ''a'' 204, ok_update ''junk'' 204, ok_update ''B'' 500]"
    by (simp_all add: busy_world_def sample_world_def sample_conf_def)
  show ?thesis
    using reload_one_at_a_time [of sample_env sample_conf busy_world no_files] g f
    by (simp add: ok_update_def)
qed

subsection \<open>The reload request\<close>





subsection \<open>The log after a failed reload\<close>

text \<open>
  Claim C6 says that the success message is logged only after a response with a 2xx
  status. The branch of line 137 logs the status and body of any other response but,
  unlike the other error branches of the loop, has no \<open>continue\<close>: line 143 is reached
  as well. Here a valid update is answered with status 500, and the goroutine logs the
  failure and then the success message.
\<close>

theorem non_2xx_reload_logs_success:
  "reload_events (Run sample_env sample_conf
      (sample_world\<lparr> later_values := [ok_update ''A'' 500] \<rparr>) no_files) =
     [Recv ''A'',
      Log InfoLevel ''[main] clash config changed, reloading...'',
      WriteFile ''/data/clash/xclash.yaml'' ''A'' 420,
      Do \<lparr> Method = ''PUT'', URL = ''http://192.168.1.1:9090/configs'',
            Header = [(''Authorization'', ''Bearer s3cret'')],
            Body = ''{'' @ [CHR 0x22] @ ''path'' @ [CHR 0x22] @ '': '' @ [CHR 0x22]
                   @ ''/data/clash/xclash.yaml'' @ [CHR 0x22] @ ''}'' \<rparr>,
      DoReturned (Inr \<lparr> StatusCode = 500, RespBody = ''body'' \<rparr>),
      Logf ErrorLevel ''[main] failed to reload config: status %d: %s'' [AInt 500, AStr ''body''],
      Log InfoLevel ''[main] clash config reload success...'']"
  by (simp add: sample_defs main_defs reload_defs reload_status_format_def reload_success_msg_def)

subsection \<open>The persisted configuration\<close>

text \<open>
  Claim C3 says that after a sequence of updates the internal configuration file equals
  the last valid update, or the startup configuration, and is never invalid. Two runs
  show otherwise. In the first the update \<open>a\<close> passes validation once auto-fixed, and
  the file holds the auto-fixed text \<open>A\<close>, not the update. In the second the write of
  the valid update \<open>A\<close> fails after truncating the file: the error is logged, the loop
  goes on, and the file is empty, which is neither the update nor a valid configuration.
\<close>

theorem persisted_file_is_not_last_valid_update:
  "files_after (Run sample_env sample_conf
      (sample_world\<lparr> later_values := [ok_update ''a'' 204] \<rparr>) no_files) sample_path = Some ''A''
   \<and> last_valid_update sample_env ''B'' (map sent [ok_update ''a'' 204]) = ''a''
   \<and> files_after (Run sample_env sample_conf
        (sample_world\<lparr> later_values := [ok_update ''a'' 204] \<rparr>) no_files) sample_path
       \<noteq> Some (last_valid_update sample_env ''B'' (map sent [ok_update ''a'' 204]))
   \<and> files_after (Run sample_env sample_conf
        (sample_world\<lparr> later_values := [failed_write_update] \<rparr>) no_files) sample_path = Some []
   \<and> last_valid_update sample_env ''B'' (map sent [failed_write_update]) = ''A''
   \<and> files_after (Run sample_env sample_conf
        (sample_world\<lparr> later_values := [failed_write_update] \<rparr>) no_files) sample_path
       \<noteq> Some (last_valid_update sample_env ''B'' (map sent [failed_write_update]))
   \<and> isl (CheckConfig sample_env [])"
  by (simp add: sample_defs main_defs reload_defs)

text \<open>
  Claim C3, amended. An update whose auto-fixed text \<open>CheckConfig\<close> rejects is logged and
  dropped: its iteration is the receive and two log lines, with no file write and no
  request, and the files stay as they were. So in a run that reaches the reload loop and
  in which every write of the loop succeeds, the internal configuration file holds in the
  end the auto-fixed text of the last update that passed validation, or the startup
  configuration if none did; \<open>CheckConfig\<close> accepts that text.
\<close>

theorem persisted_file_is_last_fixed_update:
  assumes "\<not> PrintVersion conf" and "first_value W = Some c" and "CheckConfig E c = Inr cc"
    and "first_write W = WriteOk" and "NewProxyMode_err W = None" and "EnableProxy_err W = None"
    and "list_all (\<lambda>u. update_write u = WriteOk) (later_values W)"
  shows "files_after (Run E conf W fs) (clashConfPath_of E conf) =
           Some (last_fixed_update E c (map sent (later_values W)))
       \<and> \<not> isl (CheckConfig E (last_fixed_update E c (map sent (later_values W))))
       \<and> (\<forall>u err p fs'. CheckConfig E (AutoFix E (sent u)) = Inl err \<longrightarrow>
            handle_update E p u fs' =
              ([Recv (sent u),
                Log InfoLevel ''[main] clash config changed, reloading...'',
                Logf ErrorLevel (''[main] an error was detected in the clash config, skipping automatic reload:''
                                  @ [CHR 0x0A] @ '' %v'') [AStr err]],
               fs'))"
proof (intro conjI allI impI)
  show "files_after (Run E conf W fs) (clashConfPath_of E conf) =
           Some (last_fixed_update E c (map sent (later_values W)))"
    by (simp add: reload_events_serving(2) [OF assms(1-6)] reload_loop_files [OF assms(7)])
  show "\<not> isl (CheckConfig E (last_fixed_update E c (map sent (later_values W))))"
    using assms(3) by (simp add: last_fixed_update_valid)
next
  fix u :: update and err p fs'
  assume "CheckConfig E (AutoFix E (sent u)) = Inl err"
  then show "handle_update E p u fs' =
              ([Recv (sent u),
                Log InfoLevel ''[main] clash config changed, reloading...'',
                Logf ErrorLevel (''[main] an error was detected in the clash config, skipping automatic reload:''
                                  @ [CHR 0x0A] @ '' %v'') [AStr err]],
               fs')"
    by (simp add: handle_update_def)
qed

theorem persisted_file_is_last_fixed_update_witness:
  "files_after (Run sample_env sample_conf
      (sample_world\<lparr> later_values := [ok_update ''a'' 204, ok_update ''junk'' 500] \<rparr>) no_files)
     (clashConfPath_of sample_env sample_conf) = Some ''A''
   \<and> \<not> isl (CheckConfig sample_env ''A'')
   \<and> handle_update sample_env sample_path (ok_update ''junk'' 500) no_files =
       ([Recv ''junk'',
         Log InfoLevel ''[main] clash config changed, reloading...'',
         Logf ErrorLevel (''[main] an error was detected in the clash config, skipping automatic reload:''
                           @ [CHR 0x0A] @ '' %v'') [AStr ''yaml: unmarshal errors'']],
        no_files)"
proof -
  have c: "CheckConfig sample_env ''B'' = Inr \<lparr> ExternalController = [], Secret = [] \<rparr>"
    by (simp add: sample_env_def sample_CheckConfig_def)
  have p: "\<not> PrintVersion sample_conf"
    by (simp add: sample_conf_def)
  have j: "CheckConfig sample_env (AutoFix sample_env (sent (ok_update ''junk'' 500))) =
             Inl ''yaml: unmarshal errors''"
    by (simp add: sample_defs)
  have l: "last_fixed_update sample_env ''B'' [''a'', ''junk''] = ''A''"
    by (simp add: sample_defs)
  show ?thesis
    using persisted_file_is_last_fixed_update
            [OF p _ c, of "sample_world\<lparr> later_values := [ok_update ''a'' 204, ok_update ''junk'' 500] \<rparr>"
               no_files] j l
    by (simp add: sample_world_def ok_update_def)
qed

end
